theory Spec2Isabelle
  imports Complex_Main
begin

unbundle bit_operations_syntax

section \<open>JavaScript values used by marching-squares.js\<close>

text \<open>
  A JavaScript number is a double. Finite doubles are modelled by the reals they denote
  (comparisons of finite doubles are exact; the rounding of \<open>+\<close>, \<open>*\<close> and \<open>/\<close> is not
  modelled), and the three non-finite doubles are kept apart, because
  \<open>Number.isFinite\<close> and the comparisons treat them differently.
\<close>

datatype jsnum = Fin real | PosInf | NegInf | NaN

text \<open>The JavaScript operator \<open><\<close> on numbers: false as soon as one side is NaN.\<close>

fun js_lt :: "jsnum \<Rightarrow> jsnum \<Rightarrow> bool" where
  "js_lt NaN b = False"
| "js_lt a NaN = False"
| "js_lt (Fin a) (Fin b) = (a < b)"
| "js_lt a NegInf = False"
| "js_lt NegInf b = True"
| "js_lt PosInf b = False"
| "js_lt (Fin a) PosInf = True"

text \<open>The operator \<open>>=\<close>: false when one side is NaN, and the negation of \<open><\<close> otherwise.\<close>

definition js_ge :: "jsnum \<Rightarrow> jsnum \<Rightarrow> bool" where
  "js_ge a b = (a \<noteq> NaN \<and> b \<noteq> NaN \<and> \<not> js_lt a b)"

text \<open>The operator \<open><=\<close>, used to state that one sample is at most another.\<close>

definition js_le :: "jsnum \<Rightarrow> jsnum \<Rightarrow> bool" where
  "js_le a b = (a \<noteq> NaN \<and> b \<noteq> NaN \<and> \<not> js_lt b a)"

fun js_add :: "jsnum \<Rightarrow> jsnum \<Rightarrow> jsnum" where
  "js_add NaN b = NaN"
| "js_add a NaN = NaN"
| "js_add (Fin a) (Fin b) = Fin (a + b)"
| "js_add PosInf NegInf = NaN"
| "js_add NegInf PosInf = NaN"
| "js_add PosInf b = PosInf"
| "js_add a PosInf = PosInf"
| "js_add NegInf b = NegInf"
| "js_add a NegInf = NegInf"

text \<open>Division by the literal 4, as in the mean of the four corner weights.\<close>

fun js_div4 :: "jsnum \<Rightarrow> jsnum" where
  "js_div4 (Fin a) = Fin (a / 4)"
| "js_div4 a = a"

text \<open>
  The values an option such as \<open>threshold\<close> can hold: a number, an array of numbers,
  \<open>undefined\<close> (which also stands for the other falsy values that are neither numbers nor
  arrays), or some other truthy value (an object, a non-empty string).
\<close>

datatype jsval = JSNumber jsnum | JSArray "jsnum list" | JSUndefined | JSObject

fun Number_isFinite :: "jsval \<Rightarrow> bool" where
  "Number_isFinite (JSNumber (Fin r)) = True"
| "Number_isFinite v = False"

fun Array_isArray :: "jsval \<Rightarrow> bool" where
  "Array_isArray (JSArray ts) = True"
| "Array_isArray v = False"

fun array_length :: "jsval \<Rightarrow> nat" where
  "array_length (JSArray ts) = length ts"
| "array_length v = 0"

text \<open>Truthiness, as tested by \<open>if (opts.thresholdValue)\<close>: 0 and NaN are falsy, every array is truthy.\<close>

fun truthy :: "jsval \<Rightarrow> bool" where
  "truthy (JSNumber (Fin r)) = (r \<noteq> 0)"
| "truthy (JSNumber NaN) = False"
| "truthy (JSNumber n) = True"
| "truthy (JSArray ts) = True"
| "truthy JSUndefined = False"
| "truthy JSObject = True"

text \<open>
  Reading \<open>arr[i]\<close>: an index outside the array gives \<open>undefined\<close>, which every use in this
  file (\<open><\<close>, \<open>>=\<close>, \<open>+\<close>, \<open>Number.isFinite\<close>) treats as NaN.
\<close>

definition array_get :: "jsnum list \<Rightarrow> int \<Rightarrow> jsnum" where
  "array_get arr i = (if 0 \<le> i \<and> i < int (length arr) then arr ! nat i else NaN)"

section \<open>Failures\<close>

text \<open>
  Every failure of the source is a failed \<open>assert\<close>; the model names each by the
  assertion that fails: the threshold check of getVertexCode (line 23), the range checks
  on x and y (lines 50, 51), \<open>code >= 0\<close> (line 102), the finiteness of the four weights
  (line 109) in getCode; the contour type (line 139), the looked-up offsets (lines 142,
  148) and the lower bounds on x and y (lines 151, 152) in getVertices.
\<close>

datatype error =
    AssertThreshold
  | AssertXRange
  | AssertYRange
  | AssertCode
  | AssertWeightsFinite
  | AssertType
  | AssertOffsets
  | AssertOffsetsArray
  | AssertXLower
  | AssertYLower

definition bind_err :: "error + 'a \<Rightarrow> ('a \<Rightarrow> error + 'b) \<Rightarrow> error + 'b" where
  "bind_err r f = (case r of Inl e \<Rightarrow> Inl e | Inr v \<Rightarrow> f v)"

section \<open>getVertexCode\<close>

text \<open>The assertion of line 23: a finite number, or an array with more than one element.\<close>

definition thresholdAccepted :: "jsval \<Rightarrow> bool" where
  "thresholdAccepted thr = (Number_isFinite thr \<or> (Array_isArray thr \<and> 1 < array_length thr))"

definition getVertexCode :: "jsnum \<Rightarrow> jsval \<Rightarrow> error + int" where
  "getVertexCode weight thr =
     (if \<not> thresholdAccepted thr then Inl AssertThreshold
      else case thr of
        JSArray ts \<Rightarrow>
          (if js_lt weight (ts ! 0) then Inr 0
           else Inr (if js_lt weight (ts ! 1) then 1 else 2))
      | JSNumber t \<Rightarrow> Inr (if js_ge weight t then 1 else 0)
      | other \<Rightarrow> Inl AssertThreshold)"

section \<open>getCode\<close>

record code_opts =
  cellWeights :: "jsnum list"
  cell_x :: int
  cell_y :: int
  width :: int
  height :: int
  threshold :: jsval
  thresholdValue :: jsval

text \<open>
  Lines 44 to 48: a truthy \<open>thresholdValue\<close> replaces \<open>threshold\<close>. The deprecation
  message that is logged then does not change the value returned and is left out.
\<close>

definition usedThreshold :: "code_opts \<Rightarrow> jsval" where
  "usedThreshold opts =
     (if truthy (thresholdValue opts) then thresholdValue opts else threshold opts)"

text \<open>
  One corner (lines 63 to 92): on the boundary the code is 0 and no weight is read (the
  weight stays \<open>undefined\<close>, here NaN); otherwise the weight is read and classified.
\<close>

definition cornerCode :: "bool \<Rightarrow> jsnum list \<Rightarrow> int \<Rightarrow> jsval \<Rightarrow> error + (jsnum \<times> int)" where
  "cornerCode onBoundary arr i thr =
     (if onBoundary then Inr (NaN, 0)
      else let weight = array_get arr i
           in bind_err (getVertexCode weight thr) (\<lambda>c. Inr (weight, c)))"

text \<open>Lines 94 to 101: the four codes (\<open>codes.top\<close> is \<open>cTop\<close>, and so on) packed, or -1
  when the threshold has neither shape.\<close>

definition packCode :: "jsval \<Rightarrow> int \<Rightarrow> int \<Rightarrow> int \<Rightarrow> int \<Rightarrow> int" where
  "packCode thr cTop cTopRight cRight cCurrent =
     (let code = -1;
          code = (if Number_isFinite thr
                  then push_bit 3 cTop OR push_bit 2 cTopRight OR push_bit 1 cRight OR cCurrent
                  else code);
          code = (if Array_isArray thr
                  then push_bit 6 cTop OR push_bit 4 cTopRight OR push_bit 2 cRight OR cCurrent
                  else code)
      in code)"

fun jsnum_isFinite :: "jsnum \<Rightarrow> bool" where
  "jsnum_isFinite (Fin r) = True"
| "jsnum_isFinite n = False"

definition getCode :: "code_opts \<Rightarrow> error + (int \<times> int)" where
  "getCode opts =
     (let arr = cellWeights opts; x = cell_x opts; y = cell_y opts;
          w = width opts; h = height opts;
          thr = usedThreshold opts
      in if \<not> (x \<ge> -1 \<and> x < w) then Inl AssertXRange
         else if \<not> (y \<ge> -1 \<and> y < h) then Inl AssertYRange
         else
           let isLeftBoundary = x < 0;
               isRightBoundary = x \<ge> w - 1;
               isBottomBoundary = y < 0;
               isTopBoundary = y \<ge> h - 1;
               isBoundary = (isLeftBoundary \<or> isRightBoundary \<or> isBottomBoundary \<or> isTopBoundary)
           in
           bind_err (cornerCode (isLeftBoundary \<or> isTopBoundary) arr ((y + 1) * w + x) thr)
             (\<lambda>(wTop, cTop).
           bind_err (cornerCode (isRightBoundary \<or> isTopBoundary) arr ((y + 1) * w + x + 1) thr)
             (\<lambda>(wTopRight, cTopRight).
           bind_err (cornerCode (isRightBoundary \<or> isBottomBoundary) arr (y * w + x + 1) thr)
             (\<lambda>(wRight, cRight).
           bind_err (cornerCode (isLeftBoundary \<or> isBottomBoundary) arr (y * w + x) thr)
             (\<lambda>(wCurrent, cCurrent).
           let code = packCode thr cTop cTopRight cRight cCurrent
           in if \<not> code \<ge> 0 then Inl AssertCode
              else if \<not> isBoundary then
                (if \<not> (jsnum_isFinite wTop \<and> jsnum_isFinite wTopRight \<and>
                        jsnum_isFinite wRight \<and> jsnum_isFinite wCurrent)
                 then Inl AssertWeightsFinite
                 else bind_err
                        (getVertexCode
                           (js_div4 (js_add (js_add (js_add wTop wTopRight) wRight) wCurrent)) thr)
                        (\<lambda>meanCode. Inr (code, meanCode)))
              else Inr (code, 0))))))"

section \<open>Cells, corners and classes\<close>

text \<open>
  The four logical corners of the cell at \<open>(x, y)\<close>, and the position of each
  in the grid of samples.
\<close>

datatype corner = Top | TopRight | Right | Current

fun cornerPos :: "corner \<Rightarrow> int \<Rightarrow> int \<Rightarrow> int \<times> int" where
  "cornerPos Top x y = (x, y + 1)"
| "cornerPos TopRight x y = (x + 1, y + 1)"
| "cornerPos Right x y = (x + 1, y)"
| "cornerPos Current x y = (x, y)"

definition inGrid :: "int \<Rightarrow> int \<Rightarrow> int \<times> int \<Rightarrow> bool" where
  "inGrid w h p = (0 \<le> fst p \<and> fst p < w \<and> 0 \<le> snd p \<and> snd p < h)"

definition cornerInGrid :: "code_opts \<Rightarrow> corner \<Rightarrow> bool" where
  "cornerInGrid opts c = inGrid (width opts) (height opts) (cornerPos c (cell_x opts) (cell_y opts))"

text \<open>The sample at a grid position: \<open>data[y * width + x]\<close>.\<close>

definition sampleAt :: "code_opts \<Rightarrow> int \<times> int \<Rightarrow> jsnum" where
  "sampleAt opts p = array_get (cellWeights opts) (snd p * width opts + fst p)"

text \<open>The class getVertexCode returns for a weight, where it returns one.\<close>

definition vertexClass :: "jsnum \<Rightarrow> jsval \<Rightarrow> int" where
  "vertexClass weight thr = (case getVertexCode weight thr of Inr c \<Rightarrow> c | Inl e \<Rightarrow> 0)"

text \<open>The class of a corner of the cell of \<open>opts\<close>: 0 outside the grid, the class of its sample inside.\<close>

definition cornerClass :: "code_opts \<Rightarrow> corner \<Rightarrow> int" where
  "cornerClass opts c =
     (if cornerInGrid opts c
      then vertexClass (sampleAt opts (cornerPos c (cell_x opts) (cell_y opts))) (usedThreshold opts)
      else 0)"

text \<open>The mean of the four corner samples, \<open>(top + topRight + right + current) / 4\<close>.\<close>

definition meanWeight :: "code_opts \<Rightarrow> jsnum" where
  "meanWeight opts =
     (let x = cell_x opts; y = cell_y opts
      in js_div4 (js_add (js_add (js_add (sampleAt opts (cornerPos Top x y))
                                         (sampleAt opts (cornerPos TopRight x y)))
                                 (sampleAt opts (cornerPos Right x y)))
                         (sampleAt opts (cornerPos Current x y))))"

text \<open>The cell addresses getCode accepts: the grid and one ring of ghost cells below and to the left.\<close>

definition validAddress :: "code_opts \<Rightarrow> bool" where
  "validAddress opts =
     (-1 \<le> cell_x opts \<and> cell_x opts < width opts \<and> -1 \<le> cell_y opts \<and> cell_y opts < height opts)"

text \<open>A ScalarField: positive width and height, and width * height finite samples.\<close>

definition wellFormedField :: "code_opts \<Rightarrow> bool" where
  "wellFormedField opts =
     (0 < width opts \<and> 0 < height opts \<and>
      int (length (cellWeights opts)) = width opts * height opts \<and>
      list_all jsnum_isFinite (cellWeights opts))"

text \<open>
  The slot of a corner in a code: bit 3, 2, 1, 0 for a scalar threshold, the two bits at
  6, 4, 2, 0 for a range.
\<close>

fun cornerIndex :: "corner \<Rightarrow> nat" where
  "cornerIndex Top = 3"
| "cornerIndex TopRight = 2"
| "cornerIndex Right = 1"
| "cornerIndex Current = 0"

definition codeSlot :: "jsval \<Rightarrow> corner \<Rightarrow> int \<Rightarrow> int" where
  "codeSlot thr c code =
     (if Array_isArray thr then take_bit 2 (drop_bit (2 * cornerIndex c) code)
      else take_bit 1 (drop_bit (cornerIndex c) code))"

text \<open>How many of the four slots of a code hold class 1.\<close>

definition classOneCorners :: "jsval \<Rightarrow> int \<Rightarrow> nat" where
  "classOneCorners thr code =
     length (filter (\<lambda>c. codeSlot thr c code = 1) [Top, TopRight, Right, Current])"

text \<open>A cell is interior when none of its four corners is a ghost.\<close>

definition interiorCell :: "code_opts \<Rightarrow> bool" where
  "interiorCell opts =
     (cornerInGrid opts Top \<and> cornerInGrid opts TopRight \<and>
      cornerInGrid opts Right \<and> cornerInGrid opts Current)"

text \<open>
  The thresholds of the specification: a finite scalar, or a range of two finite bounds
  in strictly ascending order.
\<close>

fun strictlyAscendingRange :: "jsnum list \<Rightarrow> bool" where
  "strictlyAscendingRange [Fin lo, Fin hi] = (lo < hi)"
| "strictlyAscendingRange ts = False"

fun specThreshold :: "jsval \<Rightarrow> bool" where
  "specThreshold (JSNumber (Fin t)) = True"
| "specThreshold (JSArray ts) = strictlyAscendingRange ts"
| "specThreshold v = False"

section \<open>The 2 by 2 field of the first scenario\<close>

definition scenarioField :: "int \<Rightarrow> int \<Rightarrow> jsval \<Rightarrow> code_opts" where
  "scenarioField x y thr =
     \<lparr>cellWeights = [Fin 0, Fin 0, Fin 0, Fin 10], cell_x = x, cell_y = y,
      width = 2, height = 2, threshold = thr, thresholdValue = JSUndefined\<rparr>"

text \<open>The cell addresses of a pass over a grid, ghost cells included, column by column.\<close>

definition cellAddresses :: "int \<Rightarrow> int \<Rightarrow> (int \<times> int) list" where
  "cellAddresses w h = List.product [-1..w - 1] [-1..h - 1]"

text \<open>The number of class 1 corners of the code getCode returns, if it returns one.\<close>

definition classOneCount :: "code_opts \<Rightarrow> nat option" where
  "classOneCount opts =
     (case getCode opts of
        Inl e \<Rightarrow> None
      | Inr r \<Rightarrow> Some (classOneCorners (usedThreshold opts) (fst r)))"

section \<open>getVertices\<close>

definition ISO_LINES :: int where
  "ISO_LINES = 1"

definition ISO_BANDS :: int where
  "ISO_BANDS = 2"

definition Z_OFFSET :: real where
  "Z_OFFSET = 0.002"

text \<open>
  The offset tables of marching-squares-codes are parameters of the model. An entry is a
  list of templates (each a list of fractional offsets), or, for a saddle code, an object
  that maps a mean code to such a list. An object is an association list.
\<close>

type_synonym offset = "real \<times> real"

datatype offsets = OffsetArray "offset list list" | OffsetsByMeanCode "(int \<times> offset list list) list"

type_synonym code_offset_map = "(int \<times> offsets) list"

text \<open>The properties \<open>opts.thresholdData\<close> may carry; each may be absent.\<close>

record threshold_data =
  zIndex :: "real option"
  zOffsetScale :: "real option"

text \<open>
  The option \<open>type\<close> is \<open>contourType\<close> here, \<open>None\<close> when it is omitted or undefined;
  \<open>x\<close> and \<open>y\<close> are \<open>vertex_x\<close> and \<open>vertex_y\<close>.
\<close>

record vertices_opts =
  gridOrigin :: "real \<times> real"
  cellSize :: "real \<times> real"
  vertex_x :: int
  vertex_y :: int
  code :: int
  meanCode :: int
  contourType :: "int option"
  thresholdData :: "threshold_data option"

datatype geometry = LineVertices "(real \<times> real \<times> real) list" | Polygons "(real \<times> real \<times> real) list list"

text \<open>
  Line 128: \<open>Object.assign({}, DEFAULT_THRESHOLD_DATA, opts.thresholdData)\<close>, the
  defaults overwritten by the properties that are present.
\<close>

definition DEFAULT_THRESHOLD_DATA :: "real \<times> real" where
  "DEFAULT_THRESHOLD_DATA = (0, 1)"

definition assignThresholdData :: "real \<times> real \<Rightarrow> threshold_data option \<Rightarrow> real \<times> real" where
  "assignThresholdData dflt src =
     (case src of
        None \<Rightarrow> dflt
      | Some td \<Rightarrow>
          (case zIndex td of None \<Rightarrow> fst dflt | Some z \<Rightarrow> z,
           case zOffsetScale td of None \<Rightarrow> snd dflt | Some k \<Rightarrow> k))"

text \<open>Line 127: the default of the destructured \<open>type\<close>.\<close>

definition typeOf :: "vertices_opts \<Rightarrow> int" where
  "typeOf opts = (case contourType opts of None \<Rightarrow> ISO_LINES | Some t \<Rightarrow> t)"

text \<open>
  Lines 131 to 148: the offsets of the code in the table of the type, and for a saddle
  code those of the mean code.
\<close>

definition lookupOffsets :: "code_offset_map \<Rightarrow> code_offset_map \<Rightarrow> vertices_opts \<Rightarrow> error + offset list list" where
  "lookupOffsets ISOLINES_CODE_OFFSET_MAP ISOBANDS_CODE_OFFSET_MAP opts =
     bind_err
       (if typeOf opts = ISO_LINES then Inr (map_of ISOLINES_CODE_OFFSET_MAP (code opts))
        else if typeOf opts = ISO_BANDS then Inr (map_of ISOBANDS_CODE_OFFSET_MAP (code opts))
        else Inl AssertType)
       (\<lambda>found.
          case found of
            None \<Rightarrow> Inl AssertOffsets
          | Some (OffsetArray ts) \<Rightarrow> Inr ts
          | Some (OffsetsByMeanCode byMean) \<Rightarrow>
              (case map_of byMean (meanCode opts) of
                 None \<Rightarrow> Inl AssertOffsetsArray
               | Some ts \<Rightarrow> Inr ts))"

definition getVertices :: "code_offset_map \<Rightarrow> code_offset_map \<Rightarrow> vertices_opts \<Rightarrow> error + geometry" where
  "getVertices ISOLINES_CODE_OFFSET_MAP ISOBANDS_CODE_OFFSET_MAP opts =
     (let x = vertex_x opts; y = vertex_y opts;
          thresholdData = assignThresholdData DEFAULT_THRESHOLD_DATA (thresholdData opts)
      in bind_err (lookupOffsets ISOLINES_CODE_OFFSET_MAP ISOBANDS_CODE_OFFSET_MAP opts)
           (\<lambda>offsets.
              if \<not> x \<ge> -1 then Inl AssertXLower
              else if \<not> y \<ge> -1 then Inl AssertYLower
              else
                let vZ = fst thresholdData * Z_OFFSET * snd thresholdData;
                    rX = (of_int x + 1) * fst (cellSize opts);
                    rY = (of_int y + 1) * snd (cellSize opts);
                    refVertexX = fst (gridOrigin opts) + rX;
                    refVertexY = snd (gridOrigin opts) + rY;
                    vertex = (\<lambda>offset. (refVertexX + fst offset * fst (cellSize opts),
                                         refVertexY + snd offset * snd (cellSize opts), vZ))
                in if typeOf opts = ISO_LINES
                   then Inr (LineVertices (concat (map (map vertex) offsets)))
                   else if typeOf opts = ISO_BANDS
                   then Inr (Polygons (map (map vertex) offsets))
                   else Inl AssertType))"

section \<open>The world points of the specification\<close>

text \<open>
  The layer depth: \<open>zIndex\<close> and \<open>zOffsetScale\<close>, 0 and 1 where none is supplied.
\<close>

definition layerDepth :: "vertices_opts \<Rightarrow> real \<times> real" where
  "layerDepth opts =
     (case thresholdData opts of
        None \<Rightarrow> (0, 1)
      | Some td \<Rightarrow> (case zIndex td of None \<Rightarrow> 0 | Some z \<Rightarrow> z,
                    case zOffsetScale td of None \<Rightarrow> 1 | Some k \<Rightarrow> k))"

definition refX :: "vertices_opts \<Rightarrow> real" where
  "refX opts = fst (gridOrigin opts) + (of_int (vertex_x opts) + 1) * fst (cellSize opts)"

definition refY :: "vertices_opts \<Rightarrow> real" where
  "refY opts = snd (gridOrigin opts) + (of_int (vertex_y opts) + 1) * snd (cellSize opts)"

definition worldPoint :: "vertices_opts \<Rightarrow> offset \<Rightarrow> real \<times> real \<times> real" where
  "worldPoint opts off =
     (refX opts + fst off * fst (cellSize opts),
      refY opts + snd off * snd (cellSize opts),
      fst (layerDepth opts) * Z_OFFSET * snd (layerDepth opts))"

fun geometryPoints :: "geometry \<Rightarrow> (real \<times> real \<times> real) list" where
  "geometryPoints (LineVertices vs) = vs"
| "geometryPoints (Polygons ps) = concat ps"

text \<open>
  An example table for each type and an example call, on which the theorems about
  getVertices are instantiated below; the tables of marching-squares-codes themselves
  stay parameters.
\<close>

definition sampleLinesMap :: code_offset_map where
  "sampleLinesMap =
     [(0, OffsetArray []),
      (4, OffsetArray [[(-1/2, 0), (0, -1/2)]]),
      (5, OffsetsByMeanCode [(0, [[(-1, -1/2), (-1/2, 0)], [(-1/2, -1), (0, -1/2)]]),
                             (1, [[(-1, -1/2), (-1/2, -1)], [(-1/2, 0), (0, -1/2)]])])]"

definition sampleBandsMap :: code_offset_map where
  "sampleBandsMap = [(32, OffsetArray [[(0, 0), (-1/2, 0), (0, -1/2)]])]"

definition sampleCall :: "int \<Rightarrow> int option \<Rightarrow> vertices_opts" where
  "sampleCall c t =
     \<lparr>gridOrigin = (10, 20), cellSize = (2, 4), vertex_x = 0, vertex_y = 0, code = c,
      meanCode = 0, contourType = t, thresholdData = None\<rparr>"

section \<open>Facts about getVertexCode and getCode\<close>

lemma getVertexCode_accepted:
  "thresholdAccepted thr \<Longrightarrow> getVertexCode weight thr = Inr (vertexClass weight thr)"
  by (cases thr) (auto simp: vertexClass_def getVertexCode_def thresholdAccepted_def)

lemma getVertexCode_rejected:
  "\<not> thresholdAccepted thr \<Longrightarrow> getVertexCode weight thr = Inl AssertThreshold"
  by (simp add: getVertexCode_def)

lemma vertexClass_range: "vertexClass weight thr \<in> {0, 1, 2}"
  by (cases thr) (auto simp: vertexClass_def getVertexCode_def)

lemma vertexClass_scalar: "Number_isFinite thr \<Longrightarrow> vertexClass weight thr \<in> {0, 1}"
  by (cases thr) (auto simp: vertexClass_def getVertexCode_def)

lemma cornerCode_accepted:
  "thresholdAccepted thr \<Longrightarrow>
   cornerCode b arr i thr =
     Inr (if b then NaN else array_get arr i, if b then 0 else vertexClass (array_get arr i) thr)"
  by (simp add: cornerCode_def getVertexCode_accepted bind_err_def Let_def)

lemma cornerCode_rejected:
  "\<not> thresholdAccepted thr \<Longrightarrow>
   cornerCode b arr i thr = (if b then Inr (NaN, 0) else Inl AssertThreshold)"
  by (simp add: cornerCode_def getVertexCode_rejected bind_err_def Let_def)

lemma cornerClass_range: "cornerClass opts c \<in> {0, 1, 2}"
  using vertexClass_range by (simp add: cornerClass_def)

lemma cornerClass_nonneg: "0 \<le> cornerClass opts c"
  using cornerClass_range [of opts c] by auto

lemma cornerClass_scalar: "Number_isFinite (usedThreshold opts) \<Longrightarrow> cornerClass opts c \<in> {0, 1}"
  using vertexClass_scalar by (simp add: cornerClass_def)

lemma packCode_nonneg:
  "thresholdAccepted thr \<Longrightarrow> 0 \<le> a \<Longrightarrow> 0 \<le> b \<Longrightarrow> 0 \<le> c \<Longrightarrow> 0 \<le> d \<Longrightarrow> 0 \<le> packCode thr a b c d"
  by (cases thr) (auto simp: packCode_def thresholdAccepted_def)

text \<open>The boundary flags of getCode agree with the positions of the corners.\<close>

lemma corner_flags:
  assumes "validAddress opts"
  shows "cornerInGrid opts Top \<longleftrightarrow> \<not> (cell_x opts < 0 \<or> cell_y opts \<ge> height opts - 1)"
    and "cornerInGrid opts TopRight \<longleftrightarrow> \<not> (cell_x opts \<ge> width opts - 1 \<or> cell_y opts \<ge> height opts - 1)"
    and "cornerInGrid opts Right \<longleftrightarrow> \<not> (cell_x opts \<ge> width opts - 1 \<or> cell_y opts < 0)"
    and "cornerInGrid opts Current \<longleftrightarrow> \<not> (cell_x opts < 0 \<or> cell_y opts < 0)"
  using assms by (auto simp: validAddress_def cornerInGrid_def inGrid_def)


lemma index_in_range:
  fixes cx cy w h :: int
  assumes "0 \<le> cx" "cx < w" "0 \<le> cy" "cy < h"
  shows "0 \<le> cy * w + cx \<and> cy * w + cx < w * h"
proof -
  have "cy * w \<le> (h - 1) * w"
    using assms by (intro mult_right_mono) auto
  then have "cy * w + cx < (h - 1) * w + w"
    using assms by linarith
  moreover have "(h - 1) * w + w = w * h"
    by (simp add: algebra_simps)
  ultimately show ?thesis
    using assms by simp
qed

lemma sampleAt_finite:
  assumes "wellFormedField opts" "inGrid (width opts) (height opts) p"
  shows "jsnum_isFinite (sampleAt opts p)"
proof -
  let ?i = "snd p * width opts + fst p"
  have r: "0 \<le> ?i \<and> ?i < width opts * height opts"
    using assms(2) by (intro index_in_range) (auto simp: inGrid_def)
  then have "nat ?i < length (cellWeights opts)"
    using assms(1) by (simp add: wellFormedField_def nat_less_iff)
  then have "jsnum_isFinite (cellWeights opts ! nat ?i)"
    using assms(1) by (simp add: wellFormedField_def list_all_length)
  then show ?thesis
    using r assms(1) by (simp add: sampleAt_def array_get_def wellFormedField_def)
qed

lemma cornerCode_Top:
  assumes "validAddress opts" "thresholdAccepted (usedThreshold opts)"
  shows "cornerCode (cell_x opts < 0 \<or> cell_y opts \<ge> height opts - 1) (cellWeights opts)
           ((cell_y opts + 1) * width opts + cell_x opts) (usedThreshold opts) =
         Inr (if cornerInGrid opts Top
              then sampleAt opts (cornerPos Top (cell_x opts) (cell_y opts)) else NaN,
              cornerClass opts Top)"
  using corner_flags(1) [OF assms(1)]
  by (simp add: cornerCode_accepted [OF assms(2)] cornerClass_def sampleAt_def)

lemma cornerCode_TopRight:
  assumes "validAddress opts" "thresholdAccepted (usedThreshold opts)"
  shows "cornerCode (cell_x opts \<ge> width opts - 1 \<or> cell_y opts \<ge> height opts - 1) (cellWeights opts)
           ((cell_y opts + 1) * width opts + cell_x opts + 1) (usedThreshold opts) =
         Inr (if cornerInGrid opts TopRight
              then sampleAt opts (cornerPos TopRight (cell_x opts) (cell_y opts)) else NaN,
              cornerClass opts TopRight)"
  using corner_flags(2) [OF assms(1)]
  by (simp add: cornerCode_accepted [OF assms(2)] cornerClass_def sampleAt_def add.assoc)

lemma cornerCode_Right:
  assumes "validAddress opts" "thresholdAccepted (usedThreshold opts)"
  shows "cornerCode (cell_x opts \<ge> width opts - 1 \<or> cell_y opts < 0) (cellWeights opts)
           (cell_y opts * width opts + cell_x opts + 1) (usedThreshold opts) =
         Inr (if cornerInGrid opts Right
              then sampleAt opts (cornerPos Right (cell_x opts) (cell_y opts)) else NaN,
              cornerClass opts Right)"
  using corner_flags(3) [OF assms(1)]
  by (simp add: cornerCode_accepted [OF assms(2)] cornerClass_def sampleAt_def add.assoc)

lemma cornerCode_Current:
  assumes "validAddress opts" "thresholdAccepted (usedThreshold opts)"
  shows "cornerCode (cell_x opts < 0 \<or> cell_y opts < 0) (cellWeights opts)
           (cell_y opts * width opts + cell_x opts) (usedThreshold opts) =
         Inr (if cornerInGrid opts Current
              then sampleAt opts (cornerPos Current (cell_x opts) (cell_y opts)) else NaN,
              cornerClass opts Current)"
  using corner_flags(4) [OF assms(1)]
  by (simp add: cornerCode_accepted [OF assms(2)] cornerClass_def sampleAt_def)

lemma isBoundary_iff:
  assumes "validAddress opts"
  shows "(cell_x opts < 0 \<or> cell_x opts \<ge> width opts - 1 \<or> cell_y opts < 0 \<or>
          cell_y opts \<ge> height opts - 1) \<longleftrightarrow> \<not> interiorCell opts"
  unfolding interiorCell_def corner_flags [OF assms] by blast

lemma getCode_accepted:
  assumes va: "validAddress opts"
    and acc: "thresholdAccepted (usedThreshold opts)"
    and fin: "interiorCell opts \<Longrightarrow>
              jsnum_isFinite (sampleAt opts (cornerPos Top (cell_x opts) (cell_y opts))) \<and>
              jsnum_isFinite (sampleAt opts (cornerPos TopRight (cell_x opts) (cell_y opts))) \<and>
              jsnum_isFinite (sampleAt opts (cornerPos Right (cell_x opts) (cell_y opts))) \<and>
              jsnum_isFinite (sampleAt opts (cornerPos Current (cell_x opts) (cell_y opts)))"
  shows "getCode opts =
           Inr (packCode (usedThreshold opts) (cornerClass opts Top) (cornerClass opts TopRight)
                  (cornerClass opts Right) (cornerClass opts Current),
                if interiorCell opts then vertexClass (meanWeight opts) (usedThreshold opts) else 0)"
proof -
  have nn: "0 \<le> packCode (usedThreshold opts) (cornerClass opts Top) (cornerClass opts TopRight)
                  (cornerClass opts Right) (cornerClass opts Current)"
    by (intro packCode_nonneg acc cornerClass_nonneg)
  have rng: "cell_x opts \<ge> -1 \<and> cell_x opts < width opts"
    "cell_y opts \<ge> -1 \<and> cell_y opts < height opts"
    using va by (simp_all add: validAddress_def)
  have "getCode opts =
          (if interiorCell opts
           then bind_err (getVertexCode (meanWeight opts) (usedThreshold opts))
                  (\<lambda>meanCode. Inr (packCode (usedThreshold opts) (cornerClass opts Top)
                      (cornerClass opts TopRight) (cornerClass opts Right)
                      (cornerClass opts Current), meanCode))
           else Inr (packCode (usedThreshold opts) (cornerClass opts Top)
                      (cornerClass opts TopRight) (cornerClass opts Right)
                      (cornerClass opts Current), 0))"
  proof (cases "interiorCell opts")
    case True
    then have ig: "cornerInGrid opts Top" "cornerInGrid opts TopRight"
      "cornerInGrid opts Right" "cornerInGrid opts Current"
      by (simp_all add: interiorCell_def)
    show ?thesis
      unfolding getCode_def Let_def
      by (simp only: rng cornerCode_Top [OF va acc] cornerCode_TopRight [OF va acc]
          cornerCode_Right [OF va acc] cornerCode_Current [OF va acc] isBoundary_iff [OF va])
         (use fin [OF True] in \<open>simp add: bind_err_def nn True ig meanWeight_def Let_def\<close>)
  next
    case False
    show ?thesis
      unfolding getCode_def Let_def
      by (simp only: rng cornerCode_Top [OF va acc] cornerCode_TopRight [OF va acc]
          cornerCode_Right [OF va acc] cornerCode_Current [OF va acc] isBoundary_iff [OF va])
         (simp add: bind_err_def nn False)
  qed
  then show ?thesis
    by (simp add: getVertexCode_accepted [OF acc] bind_err_def)
qed

lemma js_le_lt_trans: "js_le a b \<Longrightarrow> js_lt b c \<Longrightarrow> js_lt a c"
  by (cases a; cases b; cases c) (auto simp: js_le_def)

lemma vertexClass_mono:
  assumes "thresholdAccepted thr" "js_le w1 w2"
  shows "vertexClass w1 thr \<le> vertexClass w2 thr"
proof (cases thr)
  case (JSNumber t)
  with assms show ?thesis
    using js_le_lt_trans [of w1 w2 t]
    by (auto simp: vertexClass_def getVertexCode_def js_ge_def js_le_def)
next
  case (JSArray ts)
  with assms show ?thesis
    using js_le_lt_trans [of w1 w2 "ts ! 0"] js_le_lt_trans [of w1 w2 "ts ! 1"]
    by (auto simp: vertexClass_def getVertexCode_def)
qed (use assms in \<open>auto simp: thresholdAccepted_def\<close>)

lemma two_cases: "(a::int) \<in> {0, 1} \<longleftrightarrow> a = 0 \<or> a = 1"
  by auto

lemma three_cases: "(a::int) \<in> {0, 1, 2} \<longleftrightarrow> a = 0 \<or> a = 1 \<or> a = 2"
  by auto

lemma slots_scalar:
  fixes a b c d :: int
  assumes "a \<in> {0, 1}" "b \<in> {0, 1}" "c \<in> {0, 1}" "d \<in> {0, 1}"
  shows "take_bit 1 (drop_bit 3 (push_bit 3 a OR push_bit 2 b OR push_bit 1 c OR d)) = a \<and>
         take_bit 1 (drop_bit 2 (push_bit 3 a OR push_bit 2 b OR push_bit 1 c OR d)) = b \<and>
         take_bit 1 (drop_bit 1 (push_bit 3 a OR push_bit 2 b OR push_bit 1 c OR d)) = c \<and>
         take_bit 1 (drop_bit 0 (push_bit 3 a OR push_bit 2 b OR push_bit 1 c OR d)) = d \<and>
         push_bit 3 a OR push_bit 2 b OR push_bit 1 c OR d \<le> 15"
  using assms unfolding two_cases by (elim disjE; simp)

lemma slots_range:
  fixes a b c d :: int
  assumes "a \<in> {0, 1, 2}" "b \<in> {0, 1, 2}" "c \<in> {0, 1, 2}" "d \<in> {0, 1, 2}"
  shows "take_bit 2 (drop_bit 6 (push_bit 6 a OR push_bit 4 b OR push_bit 2 c OR d)) = a \<and>
         take_bit 2 (drop_bit 4 (push_bit 6 a OR push_bit 4 b OR push_bit 2 c OR d)) = b \<and>
         take_bit 2 (drop_bit 2 (push_bit 6 a OR push_bit 4 b OR push_bit 2 c OR d)) = c \<and>
         take_bit 2 (drop_bit 0 (push_bit 6 a OR push_bit 4 b OR push_bit 2 c OR d)) = d \<and>
         push_bit 6 a OR push_bit 4 b OR push_bit 2 c OR d < 256"
  using assms unfolding three_cases by (elim disjE; simp)

lemma scalar_not_array: "Number_isFinite thr \<Longrightarrow> \<not> Array_isArray thr"
  by (cases thr) auto

lemma codeSlot_packCode_scalar:
  assumes "Number_isFinite thr" "a \<in> {0, 1}" "b \<in> {0, 1}" "c \<in> {0, 1}" "d \<in> {0, 1}"
  shows "codeSlot thr Top (packCode thr a b c d) = a"
    and "codeSlot thr TopRight (packCode thr a b c d) = b"
    and "codeSlot thr Right (packCode thr a b c d) = c"
    and "codeSlot thr Current (packCode thr a b c d) = d"
    and "packCode thr a b c d \<le> 15"
  using slots_scalar [OF assms(2-5)] assms(1) scalar_not_array [OF assms(1)]
  by (simp_all add: codeSlot_def packCode_def)

lemma codeSlot_packCode_range:
  assumes "Array_isArray thr" "a \<in> {0, 1, 2}" "b \<in> {0, 1, 2}" "c \<in> {0, 1, 2}" "d \<in> {0, 1, 2}"
  shows "codeSlot thr Top (packCode thr a b c d) = a"
    and "codeSlot thr TopRight (packCode thr a b c d) = b"
    and "codeSlot thr Right (packCode thr a b c d) = c"
    and "codeSlot thr Current (packCode thr a b c d) = d"
    and "packCode thr a b c d < 256"
  using slots_range [OF assms(2-5)] assms(1)
  by (simp_all add: codeSlot_def packCode_def)

text \<open>The slot of a corner in the code getCode packs holds the class of that corner.\<close>

lemma codeSlot_cornerClass:
  assumes "thresholdAccepted (usedThreshold opts)"
  shows "codeSlot (usedThreshold opts) k
           (packCode (usedThreshold opts) (cornerClass opts Top) (cornerClass opts TopRight)
              (cornerClass opts Right) (cornerClass opts Current)) = cornerClass opts k"
proof (cases "Array_isArray (usedThreshold opts)")
  case True
  show ?thesis
    using codeSlot_packCode_range [OF True cornerClass_range [of opts Top]
        cornerClass_range [of opts TopRight] cornerClass_range [of opts Right]
        cornerClass_range [of opts Current]]
    by (cases k) simp_all
next
  case False
  with assms have fin: "Number_isFinite (usedThreshold opts)"
    by (simp add: thresholdAccepted_def)
  show ?thesis
    using codeSlot_packCode_scalar [OF fin cornerClass_scalar [OF fin, of Top]
        cornerClass_scalar [OF fin, of TopRight] cornerClass_scalar [OF fin, of Right]
        cornerClass_scalar [OF fin, of Current]]
    by (cases k) simp_all
qed

lemma getCode_rejected:
  assumes va: "validAddress opts" and pos: "0 < width opts" "0 < height opts"
    and rej: "\<not> thresholdAccepted (usedThreshold opts)"
  shows "getCode opts = Inl AssertThreshold"
  using va pos
  by (auto simp add: getCode_def Let_def cornerCode_rejected [OF rej] bind_err_def validAddress_def)

lemma specThreshold_accepted: "specThreshold thr \<Longrightarrow> thresholdAccepted thr"
  by (induction thr rule: specThreshold.induct)
     (auto simp: thresholdAccepted_def elim: strictlyAscendingRange.elims)

lemma wellFormed_samples_finite:
  assumes "wellFormedField opts" "interiorCell opts"
  shows "jsnum_isFinite (sampleAt opts (cornerPos Top (cell_x opts) (cell_y opts))) \<and>
         jsnum_isFinite (sampleAt opts (cornerPos TopRight (cell_x opts) (cell_y opts))) \<and>
         jsnum_isFinite (sampleAt opts (cornerPos Right (cell_x opts) (cell_y opts))) \<and>
         jsnum_isFinite (sampleAt opts (cornerPos Current (cell_x opts) (cell_y opts)))"
  using assms unfolding interiorCell_def cornerInGrid_def
  by (intro conjI sampleAt_finite) auto

text \<open>The definitions a run of getCode on the scenario field unfolds.\<close>

lemmas run_getCode = getCode_def usedThreshold_def cornerCode_def getVertexCode_def
  thresholdAccepted_def array_get_def bind_err_def packCode_def js_ge_def scenarioField_def

lemma scenarioField_wellFormed: "wellFormedField (scenarioField x y thr)"
  by (simp add: wellFormedField_def scenarioField_def)

lemma scenarioField_usedThreshold: "usedThreshold (scenarioField x y thr) = thr"
  by (simp add: usedThreshold_def scenarioField_def)

section \<open>Facts about getVertices\<close>

lemma assignThresholdData_layerDepth:
  "assignThresholdData DEFAULT_THRESHOLD_DATA (thresholdData opts) = layerDepth opts"
  by (simp add: assignThresholdData_def DEFAULT_THRESHOLD_DATA_def layerDepth_def
      split: option.splits)

lemma getVertices_eq:
  "getVertices L B opts =
     bind_err (lookupOffsets L B opts)
       (\<lambda>ts. if \<not> vertex_x opts \<ge> -1 then Inl AssertXLower
             else if \<not> vertex_y opts \<ge> -1 then Inl AssertYLower
             else if typeOf opts = ISO_LINES
                  then Inr (LineVertices (concat (map (map (worldPoint opts)) ts)))
             else if typeOf opts = ISO_BANDS
                  then Inr (Polygons (map (map (worldPoint opts)) ts))
             else Inl AssertType)"
proof -
  have wp: "worldPoint opts =
     (\<lambda>off. (fst (gridOrigin opts) + (of_int (vertex_x opts) + 1) * fst (cellSize opts) +
               fst off * fst (cellSize opts),
             snd (gridOrigin opts) + (of_int (vertex_y opts) + 1) * snd (cellSize opts) +
               snd off * snd (cellSize opts),
             fst (layerDepth opts) * Z_OFFSET * snd (layerDepth opts)))"
    by (rule ext) (simp add: worldPoint_def refX_def refY_def)
  show ?thesis
    unfolding getVertices_def Let_def assignThresholdData_layerDepth wp ..
qed

text \<open>The definitions a run of getVertices on the example tables unfolds.\<close>

lemmas run_getVertices = getVertices_def lookupOffsets_def typeOf_def bind_err_def
  assignThresholdData_def DEFAULT_THRESHOLD_DATA_def ISO_LINES_def ISO_BANDS_def Z_OFFSET_def
  sampleLinesMap_def sampleBandsMap_def sampleCall_def

section \<open>The claims about the Cell Classifier\<close>

text \<open>
  Claim C1, as amended. On the field of width 2 and height 2 with samples [0, 0, 0, 10]
  and the scalar threshold 5, the cell addresses of the range [-1, 1] x [-1, 1] whose code
  has exactly one slot of class 1 are the four cells that touch the sample at (1, 1):
  (0, 0) with code 4, (0, 1) with code 2, (1, 0) with code 8 and (1, 1) with code 1; each
  of the other five addresses has the code 0, with no slot of class 1. The mean code is 0
  at every address. Each entry below is the address, what getCode returns there, and the
  number of slots of class 1 in the code.
\<close>

theorem scenario1_class_one_cells:
  "map (\<lambda>p. (p, getCode (scenarioField (fst p) (snd p) (JSNumber (Fin 5))),
               classOneCount (scenarioField (fst p) (snd p) (JSNumber (Fin 5)))))
     (cellAddresses 2 2) =
   [((-1, -1), Inr (0, 0), Some 0), ((-1, 0), Inr (0, 0), Some 0), ((-1, 1), Inr (0, 0), Some 0),
    ((0, -1), Inr (0, 0), Some 0), ((0, 0), Inr (4, 0), Some 1), ((0, 1), Inr (2, 0), Some 1),
    ((1, -1), Inr (0, 0), Some 0), ((1, 0), Inr (8, 0), Some 1), ((1, 1), Inr (1, 0), Some 1)]"
  by code_simp

text \<open>
  The cell at (0, 1) is not the cell at (0, 0), and its code 2 has exactly one slot of
  class 1, the one of its right corner, which is the sample at (1, 1).
\<close>

theorem scenario1_cell_0_1_counterexample:
  "getCode (scenarioField 0 1 (JSNumber (Fin 5))) = Inr (2, 0) \<and>
   classOneCorners (JSNumber (Fin 5)) 2 = 1 \<and>
   ((0, 1) :: int \<times> int) \<noteq> (0, 0)"
  by (simp add: run_getCode classOneCorners_def codeSlot_def)

text \<open>
  Claim C2, as amended. For a well-formed field and a cell address in the valid range,
  getCode fails if and only if the threshold it uses is neither a finite number nor an
  array of at least two elements, and it then fails with the assertion of getVertexCode;
  the order of the two bounds of a range is not checked.
\<close>

theorem getCode_fails_iff_threshold_rejected:
  assumes "wellFormedField opts" "validAddress opts"
  shows "((\<exists>e. getCode opts = Inl e) \<longleftrightarrow> \<not> thresholdAccepted (usedThreshold opts)) \<and>
         (\<not> thresholdAccepted (usedThreshold opts) \<longrightarrow> getCode opts = Inl AssertThreshold)"
proof (cases "thresholdAccepted (usedThreshold opts)")
  case True
  then show ?thesis
    using getCode_accepted [OF assms(2) True wellFormed_samples_finite [OF assms(1)]]
    by simp
next
  case False
  then show ?thesis
    using getCode_rejected [OF assms(2) _ _ False] assms(1)
    by (simp add: wellFormedField_def)
qed

text \<open>
  The theorem on the scenario field at (0, 0): an undefined threshold and a one-element
  array fail, the descending range [5, 3] does not.
\<close>

theorem getCode_fails_iff_threshold_rejected_witness:
  "wellFormedField (scenarioField 0 0 JSUndefined) \<and>
   validAddress (scenarioField 0 0 JSUndefined) \<and>
   \<not> thresholdAccepted (usedThreshold (scenarioField 0 0 JSUndefined)) \<and>
   getCode (scenarioField 0 0 JSUndefined) = Inl AssertThreshold \<and>
   getCode (scenarioField 0 0 (JSArray [Fin 5])) = Inl AssertThreshold \<and>
   thresholdAccepted (usedThreshold (scenarioField 0 0 (JSArray [Fin 5, Fin 3]))) \<and>
   \<not> (\<exists>e. getCode (scenarioField 0 0 (JSArray [Fin 5, Fin 3])) = Inl e)"
proof -
  have va: "validAddress (scenarioField 0 0 thr)" for thr
    by (simp add: validAddress_def scenarioField_def)
  have rej: "\<not> thresholdAccepted (usedThreshold (scenarioField 0 0 JSUndefined))"
    "\<not> thresholdAccepted (usedThreshold (scenarioField 0 0 (JSArray [Fin 5])))"
    by (simp_all add: scenarioField_usedThreshold thresholdAccepted_def)
  have acc: "thresholdAccepted (usedThreshold (scenarioField 0 0 (JSArray [Fin 5, Fin 3])))"
    by (simp add: scenarioField_usedThreshold thresholdAccepted_def)
  show ?thesis
    using getCode_fails_iff_threshold_rejected [OF scenarioField_wellFormed va, of JSUndefined]
      getCode_fails_iff_threshold_rejected [OF scenarioField_wellFormed va, of "JSArray [Fin 5]"]
      getCode_fails_iff_threshold_rejected [OF scenarioField_wellFormed va, of "JSArray [Fin 5, Fin 3]"]
      scenarioField_wellFormed [of 0 0 JSUndefined] va [of JSUndefined] rej acc
    by blast
qed

text \<open>
  The range [5, 3] is not strictly ascending, and getCode classifies with it: the sample
  10 is not below 5 and not below 3, hence of class 2.
\<close>

theorem getCode_descending_range_counterexample:
  "\<not> specThreshold (JSArray [Fin 5, Fin 3]) \<and>
   getCode (scenarioField 0 0 (JSArray [Fin 5, Fin 3])) = Inr (32, 0)"
  by (simp add: run_getCode)

text \<open>
  Claim C3. For a well-formed field, a cell address in the valid range and a threshold
  that getVertexCode accepts (every threshold of the specification is one, by
  \<open>specThreshold_accepted\<close>), getCode returns a code that packs the classes of the
  corners top, top-right, right and current: shifted by 3, 2, 1 and 0 bits for a scalar
  threshold, by 6, 4, 2 and 0 bits for a range.
\<close>

theorem getCode_packs_corner_classes:
  assumes "wellFormedField opts" "validAddress opts" "thresholdAccepted (usedThreshold opts)"
  shows "\<exists>c m. getCode opts = Inr (c, m) \<and>
           (Number_isFinite (usedThreshold opts) \<longrightarrow>
              c = push_bit 3 (cornerClass opts Top) OR push_bit 2 (cornerClass opts TopRight) OR
                  push_bit 1 (cornerClass opts Right) OR cornerClass opts Current) \<and>
           (Array_isArray (usedThreshold opts) \<longrightarrow>
              c = push_bit 6 (cornerClass opts Top) OR push_bit 4 (cornerClass opts TopRight) OR
                  push_bit 2 (cornerClass opts Right) OR cornerClass opts Current)"
  using getCode_accepted [OF assms(2,3) wellFormed_samples_finite [OF assms(1)]]
    scalar_not_array [of "usedThreshold opts"]
  by (auto simp: packCode_def)

text \<open>
  The theorem on the scenario field at (0, 0): with the range [3, 8] the top-right corner
  has class 2 and the code is 2 shifted by 4; with the scalar 5 it has class 1 and the
  code is 1 shifted by 2.
\<close>

theorem getCode_packs_corner_classes_witness:
  "wellFormedField (scenarioField 0 0 (JSArray [Fin 3, Fin 8])) \<and>
   validAddress (scenarioField 0 0 (JSArray [Fin 3, Fin 8])) \<and>
   thresholdAccepted (usedThreshold (scenarioField 0 0 (JSArray [Fin 3, Fin 8]))) \<and>
   Array_isArray (usedThreshold (scenarioField 0 0 (JSArray [Fin 3, Fin 8]))) \<and>
   cornerClass (scenarioField 0 0 (JSArray [Fin 3, Fin 8])) TopRight = 2 \<and>
   (\<exists>m. getCode (scenarioField 0 0 (JSArray [Fin 3, Fin 8])) = Inr (32, m)) \<and>
   thresholdAccepted (usedThreshold (scenarioField 0 0 (JSNumber (Fin 5)))) \<and>
   Number_isFinite (usedThreshold (scenarioField 0 0 (JSNumber (Fin 5)))) \<and>
   cornerClass (scenarioField 0 0 (JSNumber (Fin 5))) TopRight = 1 \<and>
   (\<exists>m. getCode (scenarioField 0 0 (JSNumber (Fin 5))) = Inr (4, m))"
proof -
  have va: "validAddress (scenarioField 0 0 thr)" for thr
    by (simp add: validAddress_def scenarioField_def)
  have acc: "thresholdAccepted (usedThreshold (scenarioField 0 0 (JSArray [Fin 3, Fin 8])))"
    "thresholdAccepted (usedThreshold (scenarioField 0 0 (JSNumber (Fin 5))))"
    by (simp_all add: scenarioField_usedThreshold thresholdAccepted_def)
  have cls: "cornerClass (scenarioField 0 0 (JSArray [Fin 3, Fin 8])) Top = 0"
    "cornerClass (scenarioField 0 0 (JSArray [Fin 3, Fin 8])) TopRight = 2"
    "cornerClass (scenarioField 0 0 (JSArray [Fin 3, Fin 8])) Right = 0"
    "cornerClass (scenarioField 0 0 (JSArray [Fin 3, Fin 8])) Current = 0"
    "cornerClass (scenarioField 0 0 (JSNumber (Fin 5))) Top = 0"
    "cornerClass (scenarioField 0 0 (JSNumber (Fin 5))) TopRight = 1"
    "cornerClass (scenarioField 0 0 (JSNumber (Fin 5))) Right = 0"
    "cornerClass (scenarioField 0 0 (JSNumber (Fin 5))) Current = 0"
    by (simp_all add: cornerClass_def cornerInGrid_def inGrid_def sampleAt_def vertexClass_def
        scenarioField_usedThreshold array_get_def getVertexCode_def thresholdAccepted_def
        js_ge_def,
        simp_all add: scenarioField_def)
  show ?thesis
    using getCode_packs_corner_classes [OF scenarioField_wellFormed va acc(1)]
      getCode_packs_corner_classes [OF scenarioField_wellFormed va acc(2)]
      scenarioField_wellFormed [of 0 0 "JSArray [Fin 3, Fin 8]"] va [of "JSArray [Fin 3, Fin 8]"] acc
    by (auto simp: cls scenarioField_usedThreshold)
qed

text \<open>
  Claim C4. For a cell address in the valid range of which some corner lies outside the
  grid (and a threshold that getVertexCode accepts), getCode returns the mean code 0, and
  in the code it returns the slot of every corner outside the grid is 0, whatever the
  array of samples holds.
\<close>

theorem getCode_ghost_corners:
  assumes "validAddress opts" "thresholdAccepted (usedThreshold opts)" "\<not> interiorCell opts"
  shows "\<exists>c. getCode opts = Inr (c, 0) \<and>
           (\<forall>k. \<not> cornerInGrid opts k \<longrightarrow> codeSlot (usedThreshold opts) k c = 0)"
proof -
  define c where "c = packCode (usedThreshold opts) (cornerClass opts Top)
     (cornerClass opts TopRight) (cornerClass opts Right) (cornerClass opts Current)"
  have "getCode opts = Inr (c, 0)"
    unfolding c_def using getCode_accepted [OF assms(1,2)] assms(3) by simp
  moreover have "codeSlot (usedThreshold opts) k c = 0" if "\<not> cornerInGrid opts k" for k
    unfolding c_def codeSlot_cornerClass [OF assms(2)] using that by (simp add: cornerClass_def)
  ultimately show ?thesis
    by blast
qed

text \<open>
  The theorem on the scenario field at (1, 0), with the threshold 0 that every sample
  reaches: the right corner (2, 0) is outside the grid and its slot is 0.
\<close>

theorem getCode_ghost_corners_witness:
  "validAddress (scenarioField 1 0 (JSNumber (Fin 0))) \<and>
   thresholdAccepted (usedThreshold (scenarioField 1 0 (JSNumber (Fin 0)))) \<and>
   \<not> interiorCell (scenarioField 1 0 (JSNumber (Fin 0))) \<and>
   \<not> cornerInGrid (scenarioField 1 0 (JSNumber (Fin 0))) Right \<and>
   (\<exists>c. getCode (scenarioField 1 0 (JSNumber (Fin 0))) = Inr (c, 0) \<and>
        codeSlot (usedThreshold (scenarioField 1 0 (JSNumber (Fin 0)))) Right c = 0)"
proof -
  let ?o = "scenarioField 1 0 (JSNumber (Fin 0))"
  have va: "validAddress ?o"
    by (simp add: validAddress_def scenarioField_def)
  have acc: "thresholdAccepted (usedThreshold ?o)"
    by (simp add: scenarioField_usedThreshold thresholdAccepted_def)
  have out: "\<not> cornerInGrid ?o Right"
    by (simp add: cornerInGrid_def inGrid_def scenarioField_def)
  then have ni: "\<not> interiorCell ?o"
    by (simp add: interiorCell_def)
  show ?thesis
    using getCode_ghost_corners [OF va acc ni] va acc ni out by blast
qed

text \<open>
  Claim C5. For a well-formed field, a cell address in the valid range and a threshold
  that getVertexCode accepts, the code getCode returns lies in [0, 15] when the threshold
  is a scalar; when it is a range, the code is the packing at the bit positions 6, 4, 2
  and 0 of its own four two-bit fields, each of which is 0, 1 or 2.
\<close>

theorem getCode_code_range:
  assumes "wellFormedField opts" "validAddress opts" "thresholdAccepted (usedThreshold opts)"
  shows "\<exists>c m. getCode opts = Inr (c, m) \<and>
           (Number_isFinite (usedThreshold opts) \<longrightarrow> 0 \<le> c \<and> c \<le> 15) \<and>
           (Array_isArray (usedThreshold opts) \<longrightarrow>
              0 \<le> c \<and> c < 256 \<and>
              (\<forall>k. codeSlot (usedThreshold opts) k c \<in> {0, 1, 2}) \<and>
              c = push_bit 6 (codeSlot (usedThreshold opts) Top c) OR
                  push_bit 4 (codeSlot (usedThreshold opts) TopRight c) OR
                  push_bit 2 (codeSlot (usedThreshold opts) Right c) OR
                  codeSlot (usedThreshold opts) Current c)"
proof -
  let ?thr = "usedThreshold opts"
  define c where "c = packCode ?thr (cornerClass opts Top) (cornerClass opts TopRight)
              (cornerClass opts Right) (cornerClass opts Current)"
  define m where "m = (if interiorCell opts then vertexClass (meanWeight opts) ?thr else 0)"
  have eq: "getCode opts = Inr (c, m)"
    unfolding c_def m_def
    by (rule getCode_accepted [OF assms(2,3) wellFormed_samples_finite [OF assms(1)]])
  have nn: "0 \<le> c"
    unfolding c_def by (intro packCode_nonneg assms(3) cornerClass_nonneg)
  have slot: "codeSlot ?thr k c = cornerClass opts k" for k
    unfolding c_def by (rule codeSlot_cornerClass [OF assms(3)])
  have scalar: "c \<le> 15" if fin: "Number_isFinite ?thr"
    unfolding c_def
    by (rule codeSlot_packCode_scalar(5) [OF fin cornerClass_scalar [OF fin]
          cornerClass_scalar [OF fin] cornerClass_scalar [OF fin] cornerClass_scalar [OF fin]])
  have range: "c < 256" if arr: "Array_isArray ?thr"
    unfolding c_def
    by (rule codeSlot_packCode_range(5) [OF arr cornerClass_range cornerClass_range
          cornerClass_range cornerClass_range])
  have repack: "c = push_bit 6 (codeSlot ?thr Top c) OR push_bit 4 (codeSlot ?thr TopRight c) OR
                    push_bit 2 (codeSlot ?thr Right c) OR codeSlot ?thr Current c"
    if arr: "Array_isArray ?thr"
    unfolding slot using arr by (simp add: c_def packCode_def)
  have slots: "codeSlot ?thr k c \<in> {0, 1, 2}" for k
    unfolding slot by (rule cornerClass_range)
  show ?thesis
    using eq nn scalar range repack slots by blast
qed

text \<open>
  The theorem on the scenario field at (1, 1) with the scalar 5 (code 1) and at (1, 0)
  with the range [3, 8] (code 128, the top corner of class 2).
\<close>

theorem getCode_code_range_witness:
  "wellFormedField (scenarioField 1 1 (JSNumber (Fin 5))) \<and>
   validAddress (scenarioField 1 1 (JSNumber (Fin 5))) \<and>
   thresholdAccepted (usedThreshold (scenarioField 1 1 (JSNumber (Fin 5)))) \<and>
   Number_isFinite (usedThreshold (scenarioField 1 1 (JSNumber (Fin 5)))) \<and>
   (\<exists>c m. getCode (scenarioField 1 1 (JSNumber (Fin 5))) = Inr (c, m) \<and> 0 \<le> c \<and> c \<le> 15) \<and>
   wellFormedField (scenarioField 1 0 (JSArray [Fin 3, Fin 8])) \<and>
   validAddress (scenarioField 1 0 (JSArray [Fin 3, Fin 8])) \<and>
   thresholdAccepted (usedThreshold (scenarioField 1 0 (JSArray [Fin 3, Fin 8]))) \<and>
   Array_isArray (usedThreshold (scenarioField 1 0 (JSArray [Fin 3, Fin 8]))) \<and>
   (\<exists>c m. getCode (scenarioField 1 0 (JSArray [Fin 3, Fin 8])) = Inr (c, m) \<and> c < 256 \<and>
      codeSlot (usedThreshold (scenarioField 1 0 (JSArray [Fin 3, Fin 8]))) Top c \<in> {0, 1, 2})"
proof -
  have va: "validAddress (scenarioField 1 1 (JSNumber (Fin 5)))"
    "validAddress (scenarioField 1 0 (JSArray [Fin 3, Fin 8]))"
    by (simp_all add: validAddress_def scenarioField_def)
  have acc: "thresholdAccepted (usedThreshold (scenarioField 1 1 (JSNumber (Fin 5))))"
    "thresholdAccepted (usedThreshold (scenarioField 1 0 (JSArray [Fin 3, Fin 8])))"
    by (simp_all add: scenarioField_usedThreshold thresholdAccepted_def)
  have shape: "Number_isFinite (usedThreshold (scenarioField 1 1 (JSNumber (Fin 5))))"
    "Array_isArray (usedThreshold (scenarioField 1 0 (JSArray [Fin 3, Fin 8])))"
    by (simp_all add: scenarioField_usedThreshold)
  show ?thesis
    using getCode_code_range [OF scenarioField_wellFormed va(1) acc(1)]
      getCode_code_range [OF scenarioField_wellFormed va(2) acc(2)]
      scenarioField_wellFormed [of 1 1 "JSNumber (Fin 5)"]
      scenarioField_wellFormed [of 1 0 "JSArray [Fin 3, Fin 8]"] va acc shape
    by blast
qed

text \<open>
  Claim C6. getVertexCode is monotonic in the weight: for a threshold it accepts (a finite
  scalar or a range, every threshold of the specification among them) and two weights
  with \<open>w1 <= w2\<close>, it returns a class for each, and the class of \<open>w1\<close> is at most
  the class of \<open>w2\<close>.
\<close>

theorem getVertexCode_monotonic:
  assumes "thresholdAccepted thr" "js_le w1 w2"
  shows "\<exists>c1 c2. getVertexCode w1 thr = Inr c1 \<and> getVertexCode w2 thr = Inr c2 \<and> c1 \<le> c2"
  using assms by (simp add: getVertexCode_accepted vertexClass_mono)

text \<open>The theorem on the range [3, 8] and the weights 5 and 10, of classes 1 and 2.\<close>

theorem getVertexCode_monotonic_witness:
  "thresholdAccepted (JSArray [Fin 3, Fin 8]) \<and> js_le (Fin 5) (Fin 10) \<and>
   getVertexCode (Fin 5) (JSArray [Fin 3, Fin 8]) = Inr 1 \<and>
   getVertexCode (Fin 10) (JSArray [Fin 3, Fin 8]) = Inr 2 \<and>
   (\<exists>c1 c2. getVertexCode (Fin 5) (JSArray [Fin 3, Fin 8]) = Inr c1 \<and>
            getVertexCode (Fin 10) (JSArray [Fin 3, Fin 8]) = Inr c2 \<and> c1 \<le> c2)"
proof -
  have a: "thresholdAccepted (JSArray [Fin 3, Fin 8])"
    by (simp add: thresholdAccepted_def)
  have l: "js_le (Fin 5) (Fin 10)"
    by (simp add: js_le_def)
  have v: "getVertexCode (Fin 5) (JSArray [Fin 3, Fin 8]) = Inr 1"
    "getVertexCode (Fin 10) (JSArray [Fin 3, Fin 8]) = Inr 2"
    by (simp_all add: getVertexCode_def thresholdAccepted_def)
  from getVertexCode_monotonic [OF a l] a l v show ?thesis
    by blast
qed

text \<open>
  Claim C9. A truthy \<open>thresholdValue\<close> takes the place of \<open>threshold\<close> in the whole of
  getCode: the call returns what it returns with that value as \<open>threshold\<close> and no
  \<open>thresholdValue\<close>. A \<open>thresholdValue\<close> of 0 is falsy: the call returns what it returns
  without it, so the threshold 0 cannot be passed under the old name.
\<close>

theorem getCode_thresholdValue_override:
  "(truthy (thresholdValue opts) \<longrightarrow>
      getCode opts =
      getCode (opts\<lparr>threshold := thresholdValue opts, thresholdValue := JSUndefined\<rparr>)) \<and>
   (thresholdValue opts = JSNumber (Fin 0) \<longrightarrow>
      getCode opts = getCode (opts\<lparr>thresholdValue := JSUndefined\<rparr>))"
  by (simp add: getCode_def usedThreshold_def)

text \<open>
  The theorem on the scenario field at (0, 0): with \<open>threshold\<close> 20 and \<open>thresholdValue\<close>
  5 the code is the one of the threshold 5; with \<open>threshold\<close> 5 and \<open>thresholdValue\<close> 0
  it is again the one of the threshold 5, not the code 15 of the threshold 0; and with no
  \<open>threshold\<close> and \<open>thresholdValue\<close> 0 the call fails.
\<close>

theorem getCode_thresholdValue_override_witness:
  "truthy (thresholdValue (scenarioField 0 0 (JSNumber (Fin 20))\<lparr>thresholdValue := JSNumber (Fin 5)\<rparr>)) \<and>
   getCode (scenarioField 0 0 (JSNumber (Fin 20))\<lparr>thresholdValue := JSNumber (Fin 5)\<rparr>) = Inr (4, 0) \<and>
   getCode (scenarioField 0 0 (JSNumber (Fin 20))) = Inr (0, 0) \<and>
   thresholdValue (scenarioField 0 0 (JSNumber (Fin 5))\<lparr>thresholdValue := JSNumber (Fin 0)\<rparr>) =
     JSNumber (Fin 0) \<and>
   getCode (scenarioField 0 0 (JSNumber (Fin 5))\<lparr>thresholdValue := JSNumber (Fin 0)\<rparr>) = Inr (4, 0) \<and>
   getCode (scenarioField 0 0 (JSNumber (Fin 0))) = Inr (15, 1) \<and>
   getCode (scenarioField 0 0 JSUndefined\<lparr>thresholdValue := JSNumber (Fin 0)\<rparr>) =
     Inl AssertThreshold"
proof -
  have r: "getCode (scenarioField 0 0 (JSNumber (Fin 5))) = Inr (4, 0)"
    "getCode (scenarioField 0 0 (JSNumber (Fin 20))) = Inr (0, 0)"
    "getCode (scenarioField 0 0 (JSNumber (Fin 0))) = Inr (15, 1)"
    "getCode (scenarioField 0 0 JSUndefined) = Inl AssertThreshold"
    by (simp_all add: run_getCode)
  have u: "scenarioField 0 0 (JSNumber (Fin 20))
             \<lparr>thresholdValue := JSNumber (Fin 5), threshold := JSNumber (Fin 5),
              thresholdValue := JSUndefined\<rparr> = scenarioField 0 0 (JSNumber (Fin 5))"
    "scenarioField 0 0 thr\<lparr>thresholdValue := JSNumber (Fin 0), thresholdValue := JSUndefined\<rparr> =
     scenarioField 0 0 thr" for thr
    by (simp_all add: scenarioField_def)
  show ?thesis
    using getCode_thresholdValue_override
            [of "scenarioField 0 0 (JSNumber (Fin 20))\<lparr>thresholdValue := JSNumber (Fin 5)\<rparr>"]
      getCode_thresholdValue_override
            [of "scenarioField 0 0 (JSNumber (Fin 5))\<lparr>thresholdValue := JSNumber (Fin 0)\<rparr>"]
      getCode_thresholdValue_override
            [of "scenarioField 0 0 JSUndefined\<lparr>thresholdValue := JSNumber (Fin 0)\<rparr>"]
    by (simp add: r u)
qed

section \<open>The claims about the Vertex Generator\<close>

text \<open>
  Claim C7. When getVertices returns a geometry, every point of it is the world point of
  an offset of the templates looked up for the code, in their order: the point
  \<open>(refX + ox * cellSize.x, refY + oy * cellSize.y, vz)\<close> with
  \<open>refX = origin.x + (x + 1) * cellSize.x\<close>, \<open>refY = origin.y + (y + 1) * cellSize.y\<close>
  and \<open>vz = zIndex * Z_OFFSET * zOffsetScale\<close>, where \<open>zIndex\<close> is 0 and
  \<open>zOffsetScale\<close> is 1 when no threshold data is supplied. For iso-lines the points are
  returned flat, for iso-bands ring by ring.
\<close>

theorem getVertices_world_points:
  assumes "getVertices L B opts = Inr g"
  shows "\<exists>ts. lookupOffsets L B opts = Inr ts \<and>
           geometryPoints g = map (worldPoint opts) (concat ts) \<and>
           (typeOf opts = ISO_LINES \<longrightarrow> g = LineVertices (map (worldPoint opts) (concat ts))) \<and>
           (typeOf opts = ISO_BANDS \<longrightarrow> g = Polygons (map (map (worldPoint opts)) ts)) \<and>
           (thresholdData opts = None \<longrightarrow>
              (\<forall>p \<in> set (geometryPoints g). snd (snd p) = 0 * Z_OFFSET * 1))"
proof -
  from assms obtain ts where ts: "lookupOffsets L B opts = Inr ts"
    by (cases "lookupOffsets L B opts") (auto simp: getVertices_eq bind_err_def)
  have ne: "ISO_LINES \<noteq> ISO_BANDS"
    by (simp add: ISO_LINES_def ISO_BANDS_def)
  have z: "snd (snd (worldPoint opts off)) = 0 * Z_OFFSET * 1" if "thresholdData opts = None" for off
    using that by (simp add: worldPoint_def layerDepth_def)
  from assms ts ne have g: "g = (if typeOf opts = ISO_LINES
        then LineVertices (map (worldPoint opts) (concat ts))
        else Polygons (map (map (worldPoint opts)) ts))"
    by (auto simp: getVertices_eq bind_err_def map_concat split: if_splits)
  have pts: "geometryPoints g = map (worldPoint opts) (concat ts)"
    by (simp add: g map_concat)
  show ?thesis
    using ts pts g ne z by (intro exI [of _ ts]) auto
qed

text \<open>
  The theorem on the example tables, for the cell (0, 0) of a grid with origin (10, 20)
  and cells of size 2 by 4: the reference vertex is (12, 24), and the offsets (-1/2, 0)
  and (0, -1/2) give the points (11, 24, 0) and (12, 22, 0).
\<close>

theorem getVertices_world_points_witness:
  "getVertices sampleLinesMap sampleBandsMap (sampleCall 4 (Some 1)) =
     Inr (LineVertices [(11, 24, 0), (12, 22, 0)]) \<and>
   typeOf (sampleCall 4 (Some 1)) = ISO_LINES \<and>
   thresholdData (sampleCall 4 (Some 1)) = None \<and>
   (\<exists>ts. lookupOffsets sampleLinesMap sampleBandsMap (sampleCall 4 (Some 1)) = Inr ts \<and>
         [(11, 24, 0), (12, 22, 0)] = map (worldPoint (sampleCall 4 (Some 1))) (concat ts)) \<and>
   getVertices sampleLinesMap sampleBandsMap (sampleCall 32 (Some 2)) =
     Inr (Polygons [[(12, 24, 0), (11, 24, 0), (12, 22, 0)]]) \<and>
   typeOf (sampleCall 32 (Some 2)) = ISO_BANDS \<and>
   (\<exists>ts. lookupOffsets sampleLinesMap sampleBandsMap (sampleCall 32 (Some 2)) = Inr ts \<and>
         Polygons [[(12, 24, 0), (11, 24, 0), (12, 22, 0)]] =
           Polygons (map (map (worldPoint (sampleCall 32 (Some 2)))) ts))"
proof -
  have l: "getVertices sampleLinesMap sampleBandsMap (sampleCall 4 (Some 1)) =
             Inr (LineVertices [(11, 24, 0), (12, 22, 0)])"
    by (simp add: run_getVertices)
  have b: "getVertices sampleLinesMap sampleBandsMap (sampleCall 32 (Some 2)) =
             Inr (Polygons [[(12, 24, 0), (11, 24, 0), (12, 22, 0)]])"
    by (simp add: run_getVertices)
  have t: "typeOf (sampleCall 4 (Some 1)) = ISO_LINES" "typeOf (sampleCall 32 (Some 2)) = ISO_BANDS"
    "thresholdData (sampleCall 4 (Some 1)) = None"
    by (simp_all add: typeOf_def sampleCall_def ISO_LINES_def ISO_BANDS_def)
  show ?thesis
    using getVertices_world_points [OF l] getVertices_world_points [OF b] l b t
    by auto
qed

text \<open>
  Claim C8. When the type given to getVertices is neither ISO_LINES nor ISO_BANDS, the
  call fails with the assertion on the type and returns no geometry, whatever the other
  options and the tables are.
\<close>

theorem getVertices_unsupported_type:
  assumes "contourType opts = Some t" "t \<noteq> ISO_LINES" "t \<noteq> ISO_BANDS"
  shows "getVertices L B opts = Inl AssertType"
  using assms by (simp add: getVertices_eq lookupOffsets_def typeOf_def bind_err_def)

text \<open>The theorem on the example call with the type 3.\<close>

theorem getVertices_unsupported_type_witness:
  "contourType (sampleCall 4 (Some 3)) = Some 3 \<and> 3 \<noteq> ISO_LINES \<and> 3 \<noteq> ISO_BANDS \<and>
   getVertices sampleLinesMap sampleBandsMap (sampleCall 4 (Some 3)) = Inl AssertType"
proof -
  have c: "contourType (sampleCall 4 (Some 3)) = Some 3"
    by (simp add: sampleCall_def)
  have n: "3 \<noteq> ISO_LINES" "3 \<noteq> ISO_BANDS"
    by (simp_all add: ISO_LINES_def ISO_BANDS_def)
  from getVertices_unsupported_type [OF c n] c n show ?thesis
    by simp
qed




end
